theory Spec2Isabelle
  imports Main "HOL-Library.Word"
begin

unbundle bit_operations_syntax

section \<open>Python values used by \<open>pidng/core.py\<close>\<close>

type_synonym u8 = "8 word"
type_synonym u16 = "16 word"
type_synonym u32 = "32 word"

text \<open>The exception classes that \<open>core.py\<close> raises itself (\<open>Exception\<close>, \<open>TypeError\<close>,
  \<open>ValueError\<close>) and the ones the interpreter and numpy raise on its behalf
  (\<open>AttributeError\<close>, \<open>IndexError\<close>, numpy's shape errors are \<open>ValueError\<close>s).
  The string is the message.\<close>

datatype error =
    Exception string
  | TypeError string
  | ValueError string
  | AttributeError string
  | IndexError string

subsection \<open>Two-dimensional numpy arrays\<close>

text \<open>An image plane is a two-dimensional array: \<open>shape = (length rows, ncols)\<close>. The
  column count is kept beside the rows because numpy's shape checks depend on it even
  when there is no row. Every row of a numpy array has \<open>ncols\<close> entries.\<close>

record 'a array2 =
  ncols :: nat
  rows :: "'a list list"

definition wf_array2 :: "'a array2 \<Rightarrow> bool" where
  "wf_array2 a \<longleftrightarrow> list_all (\<lambda>r. length r = ncols a) (rows a)"

text \<open>The element types \<open>core.py\<close> distinguishes. A \<open>float32\<close> element is kept as its
  32-bit pattern and an element of any other type as its bytes: the code never computes
  with them.\<close>

datatype dtype = uint8 | uint16 | float32 | other_dtype string

datatype ndarray =
    U8 "u8 array2"
  | U16 "u16 array2"
  | F32 "u32 array2"
  | Other string "u8 list array2"

fun dtype_of :: "ndarray \<Rightarrow> dtype" where
  "dtype_of (U8 _) = uint8"
| "dtype_of (U16 _) = uint16"
| "dtype_of (F32 _) = float32"
| "dtype_of (Other n _) = other_dtype n"

fun shape_of :: "ndarray \<Rightarrow> nat \<times> nat" where
  "shape_of (U8 a) = (length (rows a), ncols a)"
| "shape_of (U16 a) = (length (rows a), ncols a)"
| "shape_of (F32 a) = (length (rows a), ncols a)"
| "shape_of (Other _ a) = (length (rows a), ncols a)"

subsection \<open>Strided column slices\<close>

text \<open>\<open>sl start step xs\<close> is \<open>xs[start::step]\<close>; the first argument counts the entries
  still to skip before the next selected one.\<close>

fun sl :: "nat \<Rightarrow> nat \<Rightarrow> 'a list \<Rightarrow> 'a list" where
  "sl _ _ [] = []"
| "sl 0 step (x # xs) = x # sl (step - 1) step xs"
| "sl (Suc n) step (x # xs) = sl n step xs"

text \<open>\<open>upd_sl f start step xs vs\<close> is \<open>xs[start::step] = f(xs[start::step], vs)\<close>, the
  values \<open>vs\<close> having the slice's length.\<close>

fun upd_sl :: "('a \<Rightarrow> 'b \<Rightarrow> 'a) \<Rightarrow> nat \<Rightarrow> nat \<Rightarrow> 'a list \<Rightarrow> 'b list \<Rightarrow> 'a list" where
  "upd_sl f _ _ [] vs = []"
| "upd_sl f 0 step (x # xs) [] = x # xs"
| "upd_sl f 0 step (x # xs) (v # vs) = f x v # upd_sl f (step - 1) step xs vs"
| "upd_sl f (Suc n) step (x # xs) vs = x # upd_sl f n step xs vs"

text \<open>\<open>del_sl start step xs\<close> is \<open>np.delete(xs, np.s_[start::step])\<close>.\<close>

fun del_sl :: "nat \<Rightarrow> nat \<Rightarrow> 'a list \<Rightarrow> 'a list" where
  "del_sl _ _ [] = []"
| "del_sl 0 step (x # xs) = del_sl (step - 1) step xs"
| "del_sl (Suc n) step (x # xs) = x # del_sl n step xs"

text \<open>The number of entries of \<open>xs[start::step]\<close> when \<open>xs\<close> has \<open>n\<close> entries.\<close>

definition slice_len :: "nat \<Rightarrow> nat \<Rightarrow> nat \<Rightarrow> nat" where
  "slice_len n start step = (if start < n then (n - start + step - 1) div step else 0)"

text \<open>numpy stretches an axis of length 1 to the length asked for, and no other.\<close>

definition bcast :: "nat \<Rightarrow> 'a list \<Rightarrow> 'a list" where
  "bcast n vs = (if length vs = n then vs else replicate n (hd vs))"

definition bshape :: "nat \<Rightarrow> nat \<Rightarrow> error + nat" where
  "bshape m n =
     (if m = n then Inr m
      else if m = 1 then Inr n
      else if n = 1 then Inr m
      else Inl (ValueError ''operands could not be broadcast together''))"

text \<open>\<open>a[:, start::step]\<close>\<close>

definition cols_sl :: "nat \<Rightarrow> nat \<Rightarrow> 'a array2 \<Rightarrow> 'a array2" where
  "cols_sl start step a =
     \<lparr>ncols = slice_len (ncols a) start step, rows = map (sl start step) (rows a)\<rparr>"

text \<open>An elementwise operation with a scalar: \<open>a << 2\<close>, \<open>a & 3\<close>, \<open>a.astype(t)\<close>.\<close>

definition amap :: "('a \<Rightarrow> 'b) \<Rightarrow> 'a array2 \<Rightarrow> 'b array2" where
  "amap f a = \<lparr>ncols = ncols a, rows = map (map f) (rows a)\<rparr>"

text \<open>An elementwise operation of two arrays with the same number of rows: \<open>a + b\<close>.\<close>

definition abin :: "('a \<Rightarrow> 'b \<Rightarrow> 'c) \<Rightarrow> 'a array2 \<Rightarrow> 'b array2 \<Rightarrow> error + 'c array2" where
  "abin f a b =
     (case bshape (ncols a) (ncols b) of
        Inl e \<Rightarrow> Inl e
      | Inr n \<Rightarrow> Inr \<lparr>ncols = n,
                     rows = map2 (\<lambda>x y. map2 f (bcast n x) (bcast n y)) (rows a) (rows b)\<rparr>)"

text \<open>\<open>a[:, start::step] = f(a[:, start::step], b)\<close> in place: \<open>|=\<close> with \<open>f = OR\<close>, plain
  assignment with \<open>f = (\<lambda>_ v. v)\<close>. The right-hand side must have the slice's column
  count, or one column.\<close>

definition ainplace ::
  "('a \<Rightarrow> 'b \<Rightarrow> 'a) \<Rightarrow> nat \<Rightarrow> nat \<Rightarrow> 'a array2 \<Rightarrow> 'b array2 \<Rightarrow> error + 'a array2" where
  "ainplace f start step a b =
     (let n = slice_len (ncols a) start step in
      if ncols b = n \<or> ncols b = 1 then
        Inr (a\<lparr>rows := map2 (\<lambda>r v. upd_sl f start step r (bcast n v)) (rows a) (rows b)\<rparr>)
      else Inl (ValueError ''could not broadcast input array into the shape of the slice''))"

text \<open>\<open>np.delete(a, np.s_[start::step], 1)\<close>\<close>

definition adelete :: "nat \<Rightarrow> nat \<Rightarrow> 'a array2 \<Rightarrow> 'a array2" where
  "adelete start step a =
     \<lparr>ncols = ncols a - slice_len (ncols a) start step, rows = map (del_sl start step) (rows a)\<rparr>"

text \<open>\<open>np.zeros((h, w), dtype=np.uint16)\<close>\<close>

definition zeros :: "nat \<Rightarrow> nat \<Rightarrow> u16 array2" where
  "zeros h w = \<lparr>ncols = w, rows = replicate h (replicate w 0)\<rparr>"

text \<open>The length of \<open>xs[:k]\<close> for a list of \<open>n\<close> entries: a negative \<open>k\<close> counts from the
  end.\<close>

definition py_upto :: "int \<Rightarrow> nat \<Rightarrow> nat" where
  "py_upto k n = (if 0 \<le> k then min (nat k) n else n - nat (- k))"

text \<open>\<open>data[:h, :w]\<close>\<close>

definition acrop :: "int \<Rightarrow> int \<Rightarrow> 'a array2 \<Rightarrow> 'a array2" where
  "acrop h w a =
     \<lparr>ncols = py_upto w (ncols a),
      rows = map (take (py_upto w (ncols a))) (take (py_upto h (length (rows a))) (rows a))\<rparr>"

text \<open>\<open>int(a / b)\<close> on Python integers: true division, then truncation towards zero. The
  quotient is a double; it is the exact one as long as it needs no more than 53 bits,
  which holds for every image size.\<close>

definition int_truediv :: "int \<Rightarrow> int \<Rightarrow> int" where
  "int_truediv a b = sgn a * sgn b * (\<bar>a\<bar> div \<bar>b\<bar>)"

text \<open>\<open>np.ascontiguousarray(a).view(np.uint16)\<close>: byte pairs read in the machine's byte
  order, little-endian on the Raspberry Pi. numpy refuses a last axis with an odd
  number of bytes.\<close>

fun pairs16 :: "u8 list \<Rightarrow> u16 list" where
  "pairs16 (lo # hi # bs) = (ucast lo OR push_bit 8 (ucast hi)) # pairs16 bs"
| "pairs16 _ = []"

definition aview16 :: "u8 array2 \<Rightarrow> error + u16 array2" where
  "aview16 a =
     (if even (ncols a) then Inr \<lparr>ncols = ncols a div 2, rows = map pairs16 (rows a)\<rparr>
      else Inl (ValueError ''When changing to a larger dtype, its size must be a divisor of the total size in bytes of the last axis of the array.''))"

text \<open>\<open>needle in haystack\<close> on strings\<close>

fun contains :: "string \<Rightarrow> string \<Rightarrow> bool" where
  "contains needle [] = (needle = [])"
| "contains needle (c # cs) = (take (length needle) (c # cs) = needle \<or> contains needle cs)"

section \<open>The pixel unpacker: \<open>RPICAM2DNG.__unpack_pixels__\<close>\<close>

text \<open>\<open>self.model.fmt\<close>, the dictionary describing the capture buffer, with the four keys
  the unpacker reads; \<open>None\<close> is an absent key, for which \<open>fmt.get\<close> has a default.\<close>

record fmt =
  fmt_size :: "(int \<times> int) option"
  fmt_stride :: "int option"
  fmt_bpp :: "int option"
  fmt_format :: "string option"

text \<open>One round of \<open>for byte in range(4)\<close>:
  \<^verbatim>\<open>data[:, byte::5] |= ((data[:, 4::5] >> ((byte+1) * 2)) & 0b11)\<close>\<close>

definition ior_low_bits :: "nat \<Rightarrow> u16 array2 \<Rightarrow> error + u16 array2" where
  "ior_low_bits byte d =
     ainplace (OR) byte 5 d (amap (\<lambda>v. drop_bit ((byte + 1) * 2) v AND 3) (cols_sl 4 5 d))"

fun for_bytes :: "nat list \<Rightarrow> u16 array2 \<Rightarrow> error + u16 array2" where
  "for_bytes [] d = Inr d"
| "for_bytes (byte # bs) d =
     (case ior_low_bits byte d of Inl e \<Rightarrow> Inl e | Inr d' \<Rightarrow> for_bytes bs d')"

text \<open>The branch \<open>s_bpp == 10\<close>.\<close>

definition unpack10 :: "u8 array2 \<Rightarrow> error + u16 array2" where
  "unpack10 a =
     (let d = amap (\<lambda>b. push_bit 2 (ucast b :: u16)) a in
      case for_bytes [0, 1, 2, 3] d of
        Inl e \<Rightarrow> Inl e
      | Inr d' \<Rightarrow> Inr (adelete 4 5 d'))"

text \<open>The branch \<open>s_bpp == 12\<close>. \<open>int(shape[1] / 3 * 2)\<close> is \<open>2 * shape[1] div 3\<close> for every
  column count a double holds exactly.\<close>

definition unpack12 :: "u8 array2 \<Rightarrow> error + u16 array2" where
  "unpack12 a =
     (let d = amap (\<lambda>b. ucast b :: u16) a;
          unpacked_data = zeros (length (rows d)) (ncols d * 2 div 3)
      in case abin (+) (amap (push_bit 4) (cols_sl 0 3 d))
                       (amap (\<lambda>v. v AND 0x0F) (cols_sl 2 3 d)) of
           Inl e \<Rightarrow> Inl e
         | Inr even_samples \<Rightarrow>
        (case ainplace (\<lambda>_ v. v) 0 2 unpacked_data even_samples of
           Inl e \<Rightarrow> Inl e
         | Inr unpacked_data' \<Rightarrow>
        (case abin (+) (amap (push_bit 4) (cols_sl 1 3 d))
                       (amap (\<lambda>v. drop_bit 4 v AND 0x0F) (cols_sl 2 3 d)) of
           Inl e \<Rightarrow> Inl e
         | Inr odd_samples \<Rightarrow> ainplace (\<lambda>_ v. v) 1 2 unpacked_data' odd_samples)))"

text \<open>\<open>s_bpp\<close>, the stored bits per pixel: \<open>bpp\<close> for a packed (\<open>CSI2P\<close>) format, 16
  otherwise.\<close>

definition stored_bpp :: "fmt \<Rightarrow> int" where
  "stored_bpp f =
     (let bpp = (case fmt_bpp f of None \<Rightarrow> 8 | Some b \<Rightarrow> b) in
      if contains ''CSI2P'' (case fmt_format f of None \<Rightarrow> [] | Some s \<Rightarrow> s) then bpp else 16)"

text \<open>\<open>data[:height, :bytes_per_row]\<close> with \<open>bytes_per_row = int(width * (s_bpp / 8))\<close>.
  The stride is read and never used.\<close>

definition fmt_crop :: "fmt \<Rightarrow> 'a array2 \<Rightarrow> 'a array2" where
  "fmt_crop f a =
     (let (width, height) = (case fmt_size f of None \<Rightarrow> (0, 0) | Some s \<Rightarrow> s);
          stride = (case fmt_stride f of None \<Rightarrow> 0 | Some s \<Rightarrow> s);
          bytes_per_row = int_truediv (width * stored_bpp f) 8
      in acrop height bytes_per_row a)"

text \<open>The whole method. An array that is not \<open>uint8\<close> is returned as it is; there is no
  \<open>else\<close> after the three stored bit depths, so any other depth returns the cropped
  bytes.\<close>

definition unpack_pixels :: "fmt \<Rightarrow> ndarray \<Rightarrow> error + ndarray" where
  "unpack_pixels f data =
     (case data of
        U8 a \<Rightarrow>
          (let s_bpp = stored_bpp f;
               d = fmt_crop f a
           in if s_bpp = 10 then map_sum id U16 (unpack10 d)
              else if s_bpp = 12 then map_sum id U16 (unpack12 d)
              else if s_bpp = 16 then map_sum id U16 (aview16 d)
              else Inr (U8 d))
      | _ \<Rightarrow> Inr data)"

section \<open>The unpacker's layouts, group by group\<close>

text \<open>What the 10-bit branch computes for one group of five bytes: sample \<open>i\<close> is byte
  \<open>i\<close> shifted left by 2, with bits \<open>2 i\<close> and \<open>2 i + 1\<close> of the fifth byte below it.\<close>

definition sample10 :: "nat \<Rightarrow> u8 \<Rightarrow> u8 \<Rightarrow> u16" where
  "sample10 i b b4 = push_bit 2 (ucast b) OR (drop_bit (2 * i) (ucast b4) AND 3)"

fun groups10 :: "u8 list \<Rightarrow> u16 list" where
  "groups10 (b0 # b1 # b2 # b3 # b4 # bs) =
     sample10 0 b0 b4 # sample10 1 b1 b4 # sample10 2 b2 b4 # sample10 3 b3 b4 # groups10 bs"
| "groups10 _ = []"

text \<open>The reading of the specification: the two low bits of sample \<open>i\<close> sit at bit
  \<open>(i + 1) * 2\<close> of the fifth byte.\<close>

definition spec_sample10 :: "nat \<Rightarrow> u8 \<Rightarrow> u8 \<Rightarrow> u16" where
  "spec_sample10 i b b4 = push_bit 2 (ucast b) OR (drop_bit ((i + 1) * 2) (ucast b4) AND 3)"

fun spec_groups10 :: "u8 list \<Rightarrow> u16 list" where
  "spec_groups10 (b0 # b1 # b2 # b3 # b4 # bs) =
     spec_sample10 0 b0 b4 # spec_sample10 1 b1 b4 # spec_sample10 2 b2 b4
       # spec_sample10 3 b3 b4 # spec_groups10 bs"
| "spec_groups10 _ = []"

text \<open>The 12-bit layout as the specification words it, with \<open>|\<close> where the code adds.\<close>

fun groups12 :: "u8 list \<Rightarrow> u16 list" where
  "groups12 (b0 # b1 # b2 # bs) =
     (push_bit 4 (ucast b0) OR (ucast b2 AND 0x0F))
       # (push_bit 4 (ucast b1) OR (drop_bit 4 (ucast b2) AND 0x0F)) # groups12 bs"
| "groups12 _ = []"

text \<open>One round of the loop of the 10-bit branch on a single row, the values taken from
  the row's own columns \<open>4::5\<close>.\<close>

definition row_ior :: "nat \<Rightarrow> u16 list \<Rightarrow> u16 list" where
  "row_ior byte r = upd_sl (OR) byte 5 r (map (\<lambda>v. drop_bit ((byte + 1) * 2) v AND 3) (sl 4 5 r))"

text \<open>The 12-bit branch on a single row: the two strided assignments into a row of
  zeros.\<close>

definition row12 :: "u8 list \<Rightarrow> u16 list" where
  "row12 r =
     (let d = map (\<lambda>b. ucast b :: u16) r;
          even_samples = map2 (+) (map (push_bit 4) (sl 0 3 d)) (map (\<lambda>v. v AND 0x0F) (sl 2 3 d));
          odd_samples = map2 (+) (map (push_bit 4) (sl 1 3 d))
                                 (map (\<lambda>v. drop_bit 4 v AND 0x0F) (sl 2 3 d))
      in upd_sl (\<lambda>_ v. v) 1 2
           (upd_sl (\<lambda>_ v. v) 0 2 (replicate (length r * 2 div 3) 0) even_samples) odd_samples)"

section \<open>The converter classes\<close>

subsection \<open>Tags\<close>

text \<open>The tag constants \<open>Tag.*\<close> that \<open>core.py\<close> names, and any other tag of the registry
  by its number. The constants themselves are defined in \<open>dng.py\<close>.\<close>

datatype tag_name =
    ImageWidth | ImageLength | BitsPerSample
  | StripOffsets | NewSubfileType | StripByteCounts | Compression | Software
  | DNGVersion | DNGBackwardVersion | SampleFormat
  | OtherTag nat

datatype compression = Uncompressed | LJ92
datatype sample_format = Uint | FloatingPoint
datatype dng_version = V1_0 | V1_4

text \<open>A caller's tag table (\<open>DNGTags\<close>): the tags in insertion order, each with its
  \<open>rawValue\<close>. \<open>core.py\<close> reads the raw value of the three dimension tags only, which
  the registry types as integers, so a raw value is a list of integers here.
  \<open>tags.get(t)\<close> is \<open>map_of tags t\<close>, \<open>None\<close> for an absent tag; \<open>tags.list()\<close> is the
  list itself.\<close>

type_synonym DNGTags = "(tag_name \<times> int list) list"

text \<open>The values \<open>__process__\<close> gives to the tags it builds with \<open>dngTag(...)\<close>.\<close>

datatype made_value =
    Ints "int list"
  | Str string
  | Compressions "compression list"
  | SampleFormats "sample_format list"
  | Version dng_version

text \<open>A tag of the main IFD: one of the caller's tag objects, or one built in
  \<open>__process__\<close>.\<close>

datatype ifd_tag = Given tag_name "int list" | Made tag_name made_value

text \<open>\<open>tags.get(t).rawValue[0]\<close>: \<open>get\<close> returns \<open>None\<close> for an absent tag, whose attribute
  access raises; an empty raw value has no first entry.\<close>

definition raw0 :: "DNGTags \<Rightarrow> tag_name \<Rightarrow> error + int" where
  "raw0 tags t =
     (case map_of tags t of
        None \<Rightarrow> Inl (AttributeError ''NoneType object has no attribute rawValue'')
      | Some [] \<Rightarrow> Inl (IndexError ''list index out of range'')
      | Some (v # _) \<Rightarrow> Inr v)"

subsection \<open>What \<open>core.py\<close> calls and does not define\<close>

text \<open>The functions of \<open>packing.py\<close>, \<open>dng.py\<close> and the external coder are parameters of
  the model. \<open>pack16tolj\<close> takes the frame, width, height, bits per sample and the
  predictor (its other arguments are the constants \<open>0, 0, 0, ""\<close>). The container
  functions take the IFDs and the strips of the \<open>DNG\<close> object: \<open>dng_dataLen\<close> is
  \<open>dataLen()\<close>, \<open>dng_strip_offsets\<close> the values of its \<open>StripOffsets\<close> dictionary, and
  \<open>dng_write\<close> is \<open>setBuffer(buf)\<close> followed by \<open>write()\<close>, giving the buffer's final
  content. The two casts are numpy's conversions of a \<open>float32\<close> and of any other
  element to \<open>uint8\<close>.\<close>

record env =
  pack16tolj :: "ndarray \<Rightarrow> int \<Rightarrow> int \<Rightarrow> int \<Rightarrow> int \<Rightarrow> error + u8 list"
  pack10 :: "ndarray \<Rightarrow> error + u8 array2"
  pack12 :: "ndarray \<Rightarrow> error + u8 array2"
  pack14 :: "ndarray \<Rightarrow> error + u8 array2"
  f32_to_u8 :: "u32 \<Rightarrow> u8"
  other_to_u8 :: "string \<Rightarrow> u8 list \<Rightarrow> u8"
  dng_dataLen :: "ifd_tag list list \<Rightarrow> u8 list list \<Rightarrow> nat"
  dng_strip_offsets :: "ifd_tag list list \<Rightarrow> u8 list list \<Rightarrow> int list"
  dng_write :: "ifd_tag list list \<Rightarrow> u8 list list \<Rightarrow> u8 list \<Rightarrow> error + u8 list"
  path_join :: "string \<Rightarrow> string \<Rightarrow> string"

subsection \<open>Bytes of an array\<close>

text \<open>\<open>a.tobytes()\<close>: the elements in row order, each in the machine's (little-endian)
  byte order.\<close>

definition le_bytes16 :: "u16 \<Rightarrow> u8 list" where
  "le_bytes16 w = [ucast w, ucast (drop_bit 8 w)]"

definition le_bytes32 :: "u32 \<Rightarrow> u8 list" where
  "le_bytes32 w = [ucast w, ucast (drop_bit 8 w), ucast (drop_bit 16 w), ucast (drop_bit 24 w)]"

fun tobytes :: "ndarray \<Rightarrow> u8 list" where
  "tobytes (U8 a) = concat (rows a)"
| "tobytes (U16 a) = concat (map (\<lambda>r. concat (map le_bytes16 r)) (rows a))"
| "tobytes (F32 a) = concat (map (\<lambda>r. concat (map le_bytes32 r)) (rows a))"
| "tobytes (Other _ a) = concat (map concat (rows a))"

text \<open>\<open>a.astype('uint8')\<close>: an unsigned integer keeps its low byte.\<close>

fun astype_uint8 :: "env \<Rightarrow> ndarray \<Rightarrow> u8 array2" where
  "astype_uint8 E (U8 a) = a"
| "astype_uint8 E (U16 a) = amap ucast a"
| "astype_uint8 E (F32 a) = amap (f32_to_u8 E) a"
| "astype_uint8 E (Other n a) = amap (other_to_u8 E n) a"

subsection \<open>Observable steps\<close>

text \<open>What a conversion does besides returning: a warning, a call of the filter hook, a
  call of the external coder (with the frame, width, height, bits per sample and
  predictor it is given), the allocation \<open>bytearray(n)\<close>, a file written.\<close>

datatype event =
    Warning string
  | HookCall ndarray
  | CoderCall ndarray int int int int
  | Alloc nat
  | FileWrite string "u8 list"

subsection \<open>\<open>DNGBASE.__data_condition__\<close> and its override\<close>

definition data_condition :: "ndarray \<Rightarrow> error + unit" where
  "data_condition data =
     (if dtype_of data \<noteq> uint16 \<and> dtype_of data \<noteq> float32
      then Inl (Exception ''RAW Data is not in correct format. Must be uint16_t or float32_t Numpy Array. '')
      else Inr ())"

text \<open>\<open>RPICAM2DNG.__data_condition__\<close> warns and returns.\<close>

definition rpicam_data_condition :: "ndarray \<Rightarrow> event list" where
  "rpicam_data_condition data =
     (if dtype_of data \<noteq> uint8
      then [Warning ''RAW Data is not in correct format. Already unpacked? '']
      else [])"

subsection \<open>\<open>DNGBASE.__tags_condition__\<close>\<close>

definition tags_condition :: "DNGTags \<Rightarrow> error + unit" where
  "tags_condition tags =
     (if map_of tags ImageWidth = None then Inl (Exception ''No width is defined in tags.'')
      else if map_of tags ImageLength = None then Inl (Exception ''No height is defined in tags.'')
      else if map_of tags BitsPerSample = None then Inl (Exception ''Bit per pixel is not defined.'')
      else Inr ())"

subsection \<open>\<open>DNGBASE.__filter__\<close>\<close>

text \<open>What a hook can return, and the hook itself: Python passes the array by reference,
  so a hook gives the content of its argument after the call together with what it
  returned or raised.\<close>

datatype pyobj = Arr ndarray | NotAnArray

type_synonym hook = "ndarray \<Rightarrow> ndarray \<times> (error + pyobj)"

text \<open>The result is the content of \<open>rawFrame\<close> after the step, and the value returned or
  the exception raised.\<close>

definition filter_frame :: "ndarray \<Rightarrow> hook option \<Rightarrow> ndarray \<times> (error + ndarray)" where
  "filter_frame rawFrame flt =
     (case flt of
        None \<Rightarrow> (rawFrame, Inr rawFrame)
      | Some f \<Rightarrow>
          (case f rawFrame of
             (frame', Inl e) \<Rightarrow> (frame', Inl e)
           | (frame', Inr NotAnArray) \<Rightarrow>
               (frame', Inl (TypeError ''return value is not a valid numpy array!''))
           | (frame', Inr (Arr processed)) \<Rightarrow>
               if shape_of processed \<noteq> shape_of frame'
               then (frame', Inl (ValueError ''return array does not have the same shape!''))
               else if dtype_of processed \<noteq> uint16
               then (frame', Inl (ValueError ''array data type is invalid!''))
               else (frame', Inr processed)))"

subsection \<open>\<open>DNGBASE.__process__\<close>\<close>

text \<open>The strip of pixel bytes. With \<open>compress\<close> the external coder is called, for
  predictor 1 with \<open>int(width)\<close> and \<open>int(length)\<close>, for predictor 6 with \<open>int(width*2)\<close>
  and \<open>int(length/2)\<close>; any other predictor raises. Without it the frame is packed
  according to \<open>bpp\<close>.\<close>

definition make_tile ::
  "env \<Rightarrow> ndarray \<Rightarrow> int \<Rightarrow> int \<Rightarrow> int \<Rightarrow> bool \<Rightarrow> int \<Rightarrow> event list \<times> (error + u8 list)" where
  "make_tile E rawFrame width len bpp compress predictor =
     (if compress then
        (if predictor = 1 then
           ([CoderCall rawFrame width len bpp 1], pack16tolj E rawFrame width len bpp 1)
         else if predictor = 6 then
           ([CoderCall rawFrame (width * 2) (int_truediv len 2) bpp 6],
            pack16tolj E rawFrame (width * 2) (int_truediv len 2) bpp 6)
         else ([], Inl (Exception ''Predictor must be either 1 or 6'')))
      else
        (if bpp = 8 then ([], Inr (tobytes (U8 (astype_uint8 E rawFrame))))
         else if bpp = 10 then ([], map_sum id (\<lambda>a. tobytes (U8 a)) (pack10 E rawFrame))
         else if bpp = 12 then ([], map_sum id (\<lambda>a. tobytes (U8 a)) (pack12 E rawFrame))
         else if bpp = 14 then ([], map_sum id (\<lambda>a. tobytes (U8 a)) (pack14 E rawFrame))
         else ([], Inr (tobytes rawFrame))))"

text \<open>The tags of the main IFD in the order \<open>__process__\<close> appends them: the strip offsets
  as zeros, the bookkeeping tags, then the caller's tags. The \<open>try\<close> around
  \<open>mainIFD.tags.append(tag)\<close> guards a list append, which cannot fail.\<close>

definition main_ifd ::
  "u8 list list \<Rightarrow> compression \<Rightarrow> dng_version \<Rightarrow> sample_format \<Rightarrow> DNGTags \<Rightarrow> ifd_tag list" where
  "main_ifd strips compression_scheme backward_version sample_fmt tags =
     [Made StripOffsets (Ints (map (\<lambda>tile. 0) strips)),
      Made NewSubfileType (Ints [0]),
      Made StripByteCounts (Ints (map (\<lambda>tile. int (length tile)) strips)),
      Made Compression (Compressions [compression_scheme]),
      Made Software (Str ''PiDNG''),
      Made DNGVersion (Version V1_4),
      Made DNGBackwardVersion (Version backward_version),
      Made SampleFormat (SampleFormats [sample_fmt])]
     @ map (\<lambda>(t, v). Given t v) tags"

text \<open>From \<open>dngTemplate = DNG()\<close> to \<open>return buf\<close>: the length is taken, the strip-offsets
  tag (the first of the IFD, the same object) gets the offsets, a buffer of that length
  is allocated and written.\<close>

definition assemble ::
  "env \<Rightarrow> u8 list \<Rightarrow> compression \<Rightarrow> dng_version \<Rightarrow> sample_format \<Rightarrow> DNGTags
     \<Rightarrow> event list \<times> (error + u8 list)" where
  "assemble E tile compression_scheme backward_version sample_fmt tags =
     (let strips = [tile];
          mainIFD = main_ifd strips compression_scheme backward_version sample_fmt tags;
          totalLength = dng_dataLen E [mainIFD] strips;
          mainIFD' = mainIFD[0 := Made StripOffsets (Ints (dng_strip_offsets E [mainIFD] strips))];
          buf = replicate totalLength (0 :: u8)
      in ([Alloc totalLength], dng_write E [mainIFD'] strips buf))"

definition process ::
  "env \<Rightarrow> ndarray \<Rightarrow> DNGTags \<Rightarrow> bool \<Rightarrow> int \<Rightarrow> event list \<times> (error + u8 list)" where
  "process E rawFrame tags compress predictor =
     (case raw0 tags ImageWidth of Inl e \<Rightarrow> ([], Inl e) | Inr width \<Rightarrow>
     (case raw0 tags ImageLength of Inl e \<Rightarrow> ([], Inl e) | Inr len \<Rightarrow>
     (case raw0 tags BitsPerSample of Inl e \<Rightarrow> ([], Inl e) | Inr bpp \<Rightarrow>
        (let compression_scheme = (if compress then LJ92 else Uncompressed);
             is_float = (dtype_of rawFrame = float32);
             sample_fmt = (if is_float then FloatingPoint else Uint);
             backward_version = (if is_float then V1_4 else V1_0)
         in if is_float \<and> compress
            then ([], Inl (Exception ''Compression is not supported for floating-point data''))
            else
              (case make_tile E rawFrame width len bpp compress predictor of
                 (evs, Inl e) \<Rightarrow> (evs, Inl e)
               | (evs, Inr tile) \<Rightarrow>
                   (case assemble E tile compression_scheme backward_version sample_fmt tags of
                      (evs', r) \<Rightarrow> (evs @ evs', r)))))))"

subsection \<open>The objects: \<open>__init__\<close>, \<open>options\<close>, \<open>convert\<close>\<close>

datatype cls = DNGBASE | RAW2DNG | CAM2DNG | RPICAM2DNG | PICAM2DNG

text \<open>An instance: its class, the attributes \<open>__init__\<close> sets to \<open>None\<close>, the attribute
  \<open>predictor\<close>, which \<open>__init__\<close> does not create (\<open>None\<close> here is its absence), and the
  camera model's tags and format for the camera classes.\<close>

record converter =
  c_kind :: cls
  c_compress :: "bool option"
  c_path :: "string option"
  c_tags :: "DNGTags option"
  c_filter :: "hook option"
  c_predictor :: "int option"
  c_model_tags :: DNGTags
  c_model_fmt :: fmt

definition init :: "cls \<Rightarrow> DNGTags \<Rightarrow> fmt \<Rightarrow> converter" where
  "init k mtags mfmt =
     \<lparr>c_kind = k, c_compress = None, c_path = None, c_tags = None, c_filter = None,
      c_predictor = None, c_model_tags = mtags, c_model_fmt = mfmt\<rparr>"

text \<open>\<open>DNGBASE.options(tags, path, compress, predictor)\<close>, inherited by \<open>RAW2DNG\<close>. An
  exception leaves the object as it was.\<close>

definition options :: "converter \<Rightarrow> DNGTags \<Rightarrow> string \<Rightarrow> bool \<Rightarrow> int \<Rightarrow> error + converter" where
  "options c tags path compress predictor =
     (case tags_condition tags of
        Inl e \<Rightarrow> Inl e
      | Inr _ \<Rightarrow> Inr (c\<lparr>c_tags := Some tags, c_compress := Some compress, c_path := Some path,
                        c_predictor := Some predictor\<rparr>))"

text \<open>\<open>CAM2DNG.options(path, compress)\<close>, inherited by \<open>RPICAM2DNG\<close>; it does not set
  \<open>predictor\<close>.\<close>

definition cam_options :: "converter \<Rightarrow> string \<Rightarrow> bool \<Rightarrow> error + converter" where
  "cam_options c path compress =
     (case tags_condition (c_model_tags c) of
        Inl e \<Rightarrow> Inl e
      | Inr _ \<Rightarrow> Inr (c\<lparr>c_tags := Some (c_model_tags c), c_compress := Some compress,
                        c_path := Some path\<rparr>))"

text \<open>\<open>PICAM2DNG.options(compress)\<close>\<close>

definition picam_options :: "converter \<Rightarrow> bool \<Rightarrow> error + converter" where
  "picam_options c compress =
     (case tags_condition (c_model_tags c) of
        Inl e \<Rightarrow> Inl e
      | Inr _ \<Rightarrow> Inr (c\<lparr>c_tags := Some (c_model_tags c), c_compress := Some compress,
                        c_path := Some []\<rparr>))"

text \<open>The two methods \<open>RPICAM2DNG\<close> overrides, by class.\<close>

definition is_rpicam :: "converter \<Rightarrow> bool" where
  "is_rpicam c \<longleftrightarrow> c_kind c = RPICAM2DNG \<or> c_kind c = PICAM2DNG"

definition check_data :: "converter \<Rightarrow> ndarray \<Rightarrow> event list \<times> (error + unit)" where
  "check_data c img =
     (if is_rpicam c then (rpicam_data_condition img, Inr ()) else ([], data_condition img))"

definition unpack :: "converter \<Rightarrow> ndarray \<Rightarrow> error + ndarray" where
  "unpack c img = (if is_rpicam c then unpack_pixels (c_model_fmt c) img else Inr img)"

datatype converted = Buffer "u8 list" | Path string

definition endswith :: "string \<Rightarrow> string \<Rightarrow> bool" where
  "endswith s suf \<longleftrightarrow> length suf \<le> length s \<and> drop (length s - length suf) s = suf"

text \<open>The end of \<open>convert\<close>: the buffer itself, or the file written and its path.\<close>

definition deliver :: "env \<Rightarrow> converter \<Rightarrow> u8 list \<Rightarrow> string \<Rightarrow> event list \<times> (error + converted)" where
  "deliver E c buf filename =
     (if length filename > 0 then
        (let filename' = (if \<not> endswith filename ''.dng'' then filename @ ''.dng'' else filename)
         in case c_path c of
              None \<Rightarrow> ([], Inl (TypeError ''expected str, bytes or os.PathLike object, not NoneType''))
            | Some p \<Rightarrow> ([FileWrite (path_join E p filename') buf], Inr (Path (path_join E p filename'))))
      else ([], Inr (Buffer buf)))"

text \<open>\<open>convert(image, filename)\<close>. The arguments of \<open>__process__\<close> are evaluated after the
  filter step; reading a \<open>predictor\<close> that was never set raises there.\<close>

definition convert ::
  "env \<Rightarrow> converter \<Rightarrow> ndarray \<Rightarrow> string \<Rightarrow> event list \<times> (error + converted)" where
  "convert E c img filename =
     (case c_tags c of
        None \<Rightarrow> ([], Inl (Exception ''Options have not been set!''))
      | Some tags \<Rightarrow>
     (case check_data c img of
        (ev1, Inl e) \<Rightarrow> (ev1, Inl e)
      | (ev1, Inr _) \<Rightarrow>
     (case unpack c img of
        Inl e \<Rightarrow> (ev1, Inl e)
      | Inr unpacked \<Rightarrow>
     (let ev2 = (case c_filter c of None \<Rightarrow> [] | Some _ \<Rightarrow> [HookCall unpacked]) in
      case snd (filter_frame unpacked (c_filter c)) of
        Inl e \<Rightarrow> (ev1 @ ev2, Inl e)
      | Inr filtered \<Rightarrow>
     (case c_predictor c of
        None \<Rightarrow> (ev1 @ ev2, Inl (AttributeError ''object has no attribute predictor''))
      | Some predictor \<Rightarrow>
     (case process E filtered tags (c_compress c = Some True) predictor of
        (ev3, Inl e) \<Rightarrow> (ev1 @ ev2 @ ev3, Inl e)
      | (ev3, Inr buf) \<Rightarrow>
          (case deliver E c buf filename of (ev4, r) \<Rightarrow> (ev1 @ ev2 @ ev3 @ ev4, r))))))))"

subsection \<open>Reading a trace, and an environment for examples\<close>


text \<open>An environment in which every callee returns at once with an empty result; the
  examples below do not depend on what the callees return.\<close>

definition stub_env :: env where
  "stub_env =
     \<lparr>pack16tolj = (\<lambda>_ _ _ _ _. Inr []),
      pack10 = (\<lambda>_. Inr \<lparr>ncols = 0, rows = []\<rparr>),
      pack12 = (\<lambda>_. Inr \<lparr>ncols = 0, rows = []\<rparr>),
      pack14 = (\<lambda>_. Inr \<lparr>ncols = 0, rows = []\<rparr>),
      f32_to_u8 = (\<lambda>_. 0),
      other_to_u8 = (\<lambda>_ _. 0),
      dng_dataLen = (\<lambda>_ _. 0),
      dng_strip_offsets = (\<lambda>_ _. []),
      dng_write = (\<lambda>_ _ buf. Inr buf),
      path_join = (\<lambda>p f. p @ f)\<rparr>"

section \<open>The packed layouts the unpacker decodes, as encoders\<close>








section \<open>Auxiliary lemmas\<close>

lemma length_upd_sl: "length (upd_sl f s k xs vs) = length xs"
  by (induction f s k xs vs rule: upd_sl.induct) auto

subsection \<open>The 10-bit branch on one row\<close>

lemma sl_4_5: "sl 4 5 (a # b # c # d # e # xs) = e # sl 4 5 xs"
  by (simp add: eval_nat_numeral)

lemma upd_sl_0_5: "upd_sl f 0 5 (a # b # c # d # e # xs) (v # vs) = f a v # b # c # d # e # upd_sl f 0 5 xs vs"
  by (simp add: eval_nat_numeral)
lemma upd_sl_1_5: "upd_sl f 1 5 (a # b # c # d # e # xs) (v # vs) = a # f b v # c # d # e # upd_sl f 1 5 xs vs"
  by (simp add: eval_nat_numeral)
lemma upd_sl_2_5: "upd_sl f 2 5 (a # b # c # d # e # xs) (v # vs) = a # b # f c v # d # e # upd_sl f 2 5 xs vs"
  by (simp add: eval_nat_numeral)
lemma upd_sl_3_5: "upd_sl f 3 5 (a # b # c # d # e # xs) (v # vs) = a # b # c # f d v # e # upd_sl f 3 5 xs vs"
  by (simp add: eval_nat_numeral)
lemma del_sl_4_5: "del_sl 4 5 (a # b # c # d # e # xs) = a # b # c # d # del_sl 4 5 xs"
  by (simp add: eval_nat_numeral)

lemma drop_push_u8: "drop_bit (n + 2) (push_bit 2 (ucast (b::u8) :: u16)) = drop_bit n (ucast b)"
  by (rule bit_word_eqI) (auto simp: bit_simps dest: bit_imp_le_length)

lemma drop_push_nums:
  "drop_bit 2 (push_bit 2 (ucast (b::u8) :: u16)) = ucast b"
  "drop_bit 4 (push_bit 2 (ucast (b::u8) :: u16)) = drop_bit 2 (ucast b)"
  "drop_bit 6 (push_bit 2 (ucast (b::u8) :: u16)) = drop_bit 4 (ucast b)"
  "drop_bit 8 (push_bit 2 (ucast (b::u8) :: u16)) = drop_bit 6 (ucast b)"
  by (rule bit_word_eqI; auto simp: bit_simps dest: bit_imp_le_length)+

lemma not_5_dvd_small:
  "\<not> 5 dvd Suc 0" "\<not> 5 dvd Suc (Suc 0)" "\<not> 5 dvd Suc (Suc (Suc 0))"
  "\<not> 5 dvd Suc (Suc (Suc (Suc 0)))"
  by presburger+

lemma row_ior_0: "row_ior 0 (a # b # c # d # e # xs) = (a OR (drop_bit 2 e AND 3)) # b # c # d # e # row_ior 0 xs"
  by (simp add: row_ior_def sl_4_5 upd_sl_0_5 del: upd_sl.simps)
lemma row_ior_1: "row_ior (Suc 0) (a # b # c # d # e # xs) = a # (b OR (drop_bit 4 e AND 3)) # c # d # e # row_ior (Suc 0) xs"
  using upd_sl_1_5 [of "(OR)"] by (simp add: row_ior_def sl_4_5 del: upd_sl.simps)
lemma row_ior_2: "row_ior 2 (a # b # c # d # e # xs) = a # b # (c OR (drop_bit 6 e AND 3)) # d # e # row_ior 2 xs"
  by (simp add: row_ior_def sl_4_5 upd_sl_2_5)
lemma row_ior_3: "row_ior 3 (a # b # c # d # e # xs) = a # b # c # (d OR (drop_bit 8 e AND 3)) # e # row_ior 3 xs"
  by (simp add: row_ior_def sl_4_5 upd_sl_3_5)

lemma row_ior_Nil: "row_ior k [] = []"
  by (simp add: row_ior_def)

lemma row10_groups:
  "5 dvd length r \<Longrightarrow>
   del_sl 4 5 (row_ior 3 (row_ior 2 (row_ior 1 (row_ior 0 (map (\<lambda>b. push_bit 2 (ucast b)) r))))) = groups10 r"
proof (induction r rule: groups10.induct)
  case (1 b0 b1 b2 b3 b4 bs)
  then have "5 dvd length bs" by (simp add: dvd_def) presburger
  with 1 show ?case
    by (simp add: row_ior_0 row_ior_1 row_ior_2 row_ior_3 del_sl_4_5 sample10_def drop_push_nums)
qed (simp_all add: row_ior_Nil not_5_dvd_small)

subsection \<open>Shapes, and the 10-bit branch on an array\<close>

lemma slice_len_0: "0 < k \<Longrightarrow> slice_len (Suc n) 0 k = Suc (slice_len n (k - 1) k)"
proof -
  assume k: "0 < k"
  have a: "(Suc n + k - 1) div k = Suc (n div k)"
    using k by (simp add: div_add_self2)
  show ?thesis
  proof (cases "k - 1 < n")
    case True
    then have "n - (k - 1) + k - 1 = n" using k by simp
    with True a show ?thesis by (simp add: slice_len_def)
  next
    case False
    then have "n div k = 0" using k by simp
    with False a show ?thesis by (simp add: slice_len_def)
  qed
qed

lemma length_sl: "0 < k \<Longrightarrow> length (sl s k xs) = slice_len (length xs) s k"
proof (induction s k xs rule: sl.induct)
  case (1 uu uv)
  then show ?case by (simp add: slice_len_def)
next
  case (2 step x xs)
  then show ?case by (simp add: slice_len_0)
next
  case (3 n step x xs)
  then show ?case by (simp add: slice_len_def)
qed

lemma slice_len_5: "5 dvd n \<Longrightarrow> k < 5 \<Longrightarrow> slice_len n k 5 = n div 5"
  unfolding slice_len_def by (auto elim!: dvdE)

lemma map2_same: "map2 f xs (map h xs) = map (\<lambda>x. f x (h x)) xs"
  by (induction xs) auto

lemma bcast_same: "length vs = n \<Longrightarrow> bcast n vs = vs"
  by (simp add: bcast_def)

lemma ior_low_bits_rows:
  assumes "wf_array2 d" and "5 dvd ncols d" and "byte < 4"
  shows "ior_low_bits byte d = Inr (d\<lparr>rows := map (row_ior byte) (rows d)\<rparr>)"
proof -
  have n: "slice_len (ncols d) byte 5 = ncols d div 5" "slice_len (ncols d) 4 5 = ncols d div 5"
    using assms by (simp_all add: slice_len_5)
  have "\<And>r. r \<in> set (rows d) \<Longrightarrow>
      upd_sl (OR) byte 5 r (bcast (ncols d div 5) (map (\<lambda>v. drop_bit ((byte + 1) * 2) v AND 3) (sl 4 5 r)))
      = row_ior byte r"
  proof -
    fix r assume "r \<in> set (rows d)"
    then have "length r = ncols d" using assms(1) by (simp add: wf_array2_def list_all_iff)
    then have "length (map (\<lambda>v. drop_bit ((byte + 1) * 2) v AND 3) (sl 4 5 r)) = ncols d div 5"
      using n by (simp add: length_sl)
    then show "upd_sl (OR) byte 5 r (bcast (ncols d div 5) (map (\<lambda>v. drop_bit ((byte + 1) * 2) v AND 3) (sl 4 5 r)))
      = row_ior byte r"
      by (simp add: bcast_same row_ior_def)
  qed
  then show ?thesis
    by (simp add: ior_low_bits_def ainplace_def amap_def cols_sl_def n map2_same comp_def cong: map_cong)
qed


lemma wf_row_ior: "wf_array2 d \<Longrightarrow> wf_array2 (d\<lparr>rows := map (row_ior b) (rows d)\<rparr>)"
  by (simp add: wf_array2_def list_all_iff row_ior_def length_upd_sl)

lemma for_bytes_rows:
  assumes "wf_array2 d" and "5 dvd ncols d"
  shows "for_bytes [0, 1, 2, 3] d
         = Inr (d\<lparr>rows := map (\<lambda>r. row_ior 3 (row_ior 2 (row_ior 1 (row_ior 0 r)))) (rows d)\<rparr>)"
proof -
  let ?d1 = "d\<lparr>rows := map (row_ior 0) (rows d)\<rparr>"
  let ?d2 = "?d1\<lparr>rows := map (row_ior 1) (rows ?d1)\<rparr>"
  let ?d3 = "?d2\<lparr>rows := map (row_ior 2) (rows ?d2)\<rparr>"
  let ?d4 = "?d3\<lparr>rows := map (row_ior 3) (rows ?d3)\<rparr>"
  have 0: "ior_low_bits 0 d = Inr ?d1"
    using assms by (simp add: ior_low_bits_rows)
  have w1: "wf_array2 ?d1" using assms(1) by (rule wf_row_ior)
  have 1: "ior_low_bits 1 ?d1 = Inr ?d2"
    using w1 assms(2) by (simp add: ior_low_bits_rows)
  have w2: "wf_array2 ?d2" using w1 by (rule wf_row_ior)
  have 2: "ior_low_bits 2 ?d2 = Inr ?d3"
    using w2 assms(2) by (simp add: ior_low_bits_rows)
  have w3: "wf_array2 ?d3" using w2 by (rule wf_row_ior)
  have 3: "ior_low_bits 3 ?d3 = Inr ?d4"
    using w3 assms(2) by (simp add: ior_low_bits_rows)
  have "for_bytes [0, 1, 2, 3] d = Inr ?d4"
    using 0 1 2 3 by simp
  then show ?thesis by (simp add: comp_def)
qed

lemma unpack10_groups:
  assumes "wf_array2 a" and "5 dvd ncols a"
  shows "unpack10 a = Inr \<lparr>ncols = 4 * (ncols a div 5), rows = map groups10 (rows a)\<rparr>"
proof -
  let ?d = "amap (\<lambda>b. push_bit 2 (ucast b :: u16)) a"
  have wd: "wf_array2 ?d" and nd: "ncols ?d = ncols a"
    using assms(1) by (simp_all add: amap_def wf_array2_def list_all_iff)
  have fb: "for_bytes [0, 1, 2, 3] ?d
      = Inr (?d\<lparr>rows := map (\<lambda>r. row_ior 3 (row_ior 2 (row_ior 1 (row_ior 0 r)))) (rows ?d)\<rparr>)"
    by (rule for_bytes_rows [OF wd]) (simp add: nd assms(2))
  have rows: "\<And>r. r \<in> set (rows a) \<Longrightarrow>
      del_sl 4 5 (row_ior 3 (row_ior 2 (row_ior 1 (row_ior 0 (map (\<lambda>b. push_bit 2 (ucast b)) r)))))
      = groups10 r"
    using assms by (intro row10_groups) (simp add: wf_array2_def list_all_iff)
  have nc: "ncols a - ncols a div 5 = 4 * (ncols a div 5)"
    using assms(2) by (auto elim!: dvdE)
  show ?thesis
    unfolding unpack10_def Let_def fb
    by (simp add: adelete_def nd slice_len_5 assms(2) nc) (use rows in \<open>simp add: amap_def comp_def\<close>)
qed

lemma py_upto_le: "py_upto k n \<le> n"
  by (simp add: py_upto_def)

lemma wf_acrop: "wf_array2 a \<Longrightarrow> wf_array2 (acrop h w a)"
proof -
  assume wf: "wf_array2 a"
  have "length (take (py_upto w (ncols a)) r) = py_upto w (ncols a)"
    if "r \<in> set (take (py_upto h (length (rows a))) (rows a))" for r
  proof -
    from that have "r \<in> set (rows a)" by (rule in_set_takeD)
    with wf have "length r = ncols a" by (simp add: wf_array2_def list_all_iff)
    then show ?thesis using py_upto_le [of w "ncols a"] by simp
  qed
  then show ?thesis by (simp add: wf_array2_def list_all_iff acrop_def)
qed

lemma wf_fmt_crop: "wf_array2 a \<Longrightarrow> wf_array2 (fmt_crop f a)"
  by (simp add: fmt_crop_def Let_def wf_acrop split: prod.splits)

subsection \<open>The 12-bit branch\<close>

lemma sl_k_3:
  "sl 0 3 (a # b # c # xs) = a # sl 0 3 xs"
  "sl (Suc 0) 3 (a # b # c # xs) = b # sl (Suc 0) 3 xs"
  "sl 2 3 (a # b # c # xs) = c # sl 2 3 xs"
  by (simp_all add: eval_nat_numeral)

lemma upd_sl_k_2:
  "upd_sl f 0 2 (a # b # xs) (v # vs) = f a v # b # upd_sl f 0 2 xs vs"
  "upd_sl f (Suc 0) 2 (a # b # xs) (v # vs) = a # f b v # upd_sl f (Suc 0) 2 xs vs"
  by (simp_all add: eval_nat_numeral)

lemma nibble_mask: "(0x0F :: u16) = mask 4"
  by (simp add: mask_eq_exp_minus_1)

lemma add_nibble_or: "push_bit 4 (x :: u16) + (y AND 0x0F) = push_bit 4 x OR (y AND 0x0F)"
proof (rule disjunctive_add_eq_or)
  show "push_bit 4 x AND (y AND 0x0F) = 0"
    unfolding nibble_mask by (rule bit_word_eqI) (auto simp: bit_simps)
qed

lemma not_3_dvd_small: "\<not> 3 dvd Suc 0" "\<not> 3 dvd Suc (Suc 0)"
  by presburger+

lemma row12_groups: "3 dvd length r \<Longrightarrow> row12 r = groups12 r"
proof (induction r rule: groups12.induct)
  case (1 b0 b1 b2 bs)
  then have d: "3 dvd length bs" by (simp add: dvd_def) presburger
  then obtain q where q: "length bs = 3 * q" by (auto elim: dvdE)
  have l: "Suc (Suc (Suc (length bs))) * 2 div 3 = Suc (Suc (length bs * 2 div 3))"
    using q by simp
  from 1 d show ?case
    by (simp add: row12_def Let_def sl_k_3 upd_sl_k_2 l add_nibble_or del: upd_sl.simps sl.simps)
qed (simp_all add: row12_def not_3_dvd_small)


lemma slice_len_3: "3 dvd n \<Longrightarrow> k < 3 \<Longrightarrow> slice_len n k 3 = n div 3"
  unfolding slice_len_def by (auto elim!: dvdE)

lemma slice_len_2: "k < 2 \<Longrightarrow> slice_len (2 * q) k 2 = q"
  unfolding slice_len_def by auto

lemma map2_maps: "map2 f (map g xs) (map h xs) = map (\<lambda>x. f (g x) (h x)) xs"
  by (induction xs) auto

lemma map2_replicate: "map2 f (replicate (length xs) c) (map h xs) = map (\<lambda>x. f c (h x)) xs"
  by (induction xs) auto

lemma unpack12_groups:
  assumes "wf_array2 a" and "3 dvd ncols a"
  shows "unpack12 a = Inr \<lparr>ncols = 2 * (ncols a div 3), rows = map groups12 (rows a)\<rparr>"
proof -
  let ?q = "ncols a div 3"
  have nc: "ncols a * 2 div 3 = 2 * ?q" using assms(2) by (auto elim!: dvdE)
  have len: "\<And>r. r \<in> set (rows a) \<Longrightarrow> length r = ncols a"
    using assms(1) by (simp add: wf_array2_def list_all_iff)
  have sl: "\<And>r k. r \<in> set (rows a) \<Longrightarrow> k < 3 \<Longrightarrow> length (sl k 3 (map ucast r :: u16 list)) = ?q"
    using assms(2) by (simp add: length_sl slice_len_3 len)
  have rows: "\<And>r. r \<in> set (rows a) \<Longrightarrow> row12 r = groups12 r"
    using assms(2) by (intro row12_groups) (simp add: len)
  have "unpack12 a = Inr \<lparr>ncols = 2 * ?q, rows = map row12 (rows a)\<rparr>"
    unfolding unpack12_def Let_def
    apply (simp add: abin_def bshape_def amap_def cols_sl_def slice_len_3 assms(2) ainplace_def
        zeros_def nc slice_len_2 map2_maps map2_replicate comp_def Let_def)
    apply (intro ballI)
    apply (simp add: row12_def Let_def bcast_same sl len nc)
    done
  then show ?thesis using rows by (simp cong: map_cong)
qed

subsection \<open>Unpacking the encoded layouts\<close>























subsection \<open>Column counts the packed branches can return\<close>






section \<open>Properties of the unpacker\<close>

text \<open>Claim C5, as amended. The specification says that a stored bit depth other than
  10, 12 and 16 fails with an unsupported-format error. The method has no such branch:
  for a \<open>uint8\<close> buffer and any other stored depth it returns the cropped bytes, still
  \<open>uint8\<close>, and raises nothing.\<close>

theorem unpack_other_depth_returns_bytes:
  assumes "stored_bpp f \<noteq> 10" and "stored_bpp f \<noteq> 12" and "stored_bpp f \<noteq> 16"
  shows "unpack_pixels f (U8 a) = Inr (U8 (fmt_crop f a))"
  using assms by (simp add: unpack_pixels_def Let_def)

theorem unpack_other_depth_returns_bytes_witness:
  "unpack_pixels \<lparr>fmt_size = Some (2, 1), fmt_stride = Some 2, fmt_bpp = Some 8,
                  fmt_format = Some ''SRGGB8_CSI2P''\<rparr>
     (U8 \<lparr>ncols = 3, rows = [[1, 2, 3]]\<rparr>)
   = Inr (U8 (fmt_crop \<lparr>fmt_size = Some (2, 1), fmt_stride = Some 2, fmt_bpp = Some 8,
                  fmt_format = Some ''SRGGB8_CSI2P''\<rparr> \<lparr>ncols = 3, rows = [[1, 2, 3]]\<rparr>))"
  by (rule unpack_other_depth_returns_bytes) (simp_all add: stored_bpp_def)

text \<open>Claim C5 as stated fails: a packed 8-bit format, two pixels wide and one row high,
  over a one-row buffer of three bytes gives back the first two bytes.\<close>

theorem unpack_other_depth_counterexample:
  "stored_bpp \<lparr>fmt_size = Some (2, 1), fmt_stride = Some 2, fmt_bpp = Some 8,
               fmt_format = Some ''SRGGB8_CSI2P''\<rparr> = 8
   \<and> unpack_pixels \<lparr>fmt_size = Some (2, 1), fmt_stride = Some 2, fmt_bpp = Some 8,
                    fmt_format = Some ''SRGGB8_CSI2P''\<rparr>
        (U8 \<lparr>ncols = 3, rows = [[1, 2, 3]]\<rparr>)
      = Inr (U8 \<lparr>ncols = 2, rows = [[1, 2]]\<rparr>)"
  by code_simp

text \<open>Claim C3, as amended. In the 10-bit branch every column, the fifth of each group
  included, is first shifted left by 2; the loop then reads the shifted fifth column at
  bit \<open>(byte + 1) * 2\<close>. So for a \<open>uint8\<close> buffer whose cropped rows are whole groups of
  five bytes, sample \<open>i\<close> of a group is byte \<open>i\<close> shifted left by 2, OR-ed with the two
  bits of the fifth byte at bit offset \<open>2 * i\<close>, and the fifth column is dropped: four
  samples for five bytes.\<close>

theorem unpack_pixels_10bit_groups:
  assumes "wf_array2 a" and "stored_bpp f = 10" and "5 dvd ncols (fmt_crop f a)"
  shows "unpack_pixels f (U8 a)
         = Inr (U16 \<lparr>ncols = 4 * (ncols (fmt_crop f a) div 5),
                      rows = map groups10 (rows (fmt_crop f a))\<rparr>)"
  using assms by (simp add: unpack_pixels_def Let_def unpack10_groups wf_fmt_crop)

theorem unpack_pixels_10bit_groups_witness:
  "wf_array2 (\<lparr>ncols = 5, rows = [[1, 2, 3, 4, 0xE4]]\<rparr> :: u8 array2) \<and> stored_bpp 
     \<lparr>fmt_size = Some (4, 1), fmt_stride = Some 5, fmt_bpp = Some 10,
       fmt_format = Some ''SRGGB10_CSI2P''\<rparr> = 10 \<and> 5 dvd ncols (fmt_crop 
     \<lparr>fmt_size = Some (4, 1), fmt_stride = Some 5, fmt_bpp = Some 10,
       fmt_format = Some ''SRGGB10_CSI2P''\<rparr> (\<lparr>ncols = 5, rows = [[1, 2, 3, 4, 0xE4]]\<rparr> :: u8 array2))
   \<and> unpack_pixels 
     \<lparr>fmt_size = Some (4, 1), fmt_stride = Some 5, fmt_bpp = Some 10,
       fmt_format = Some ''SRGGB10_CSI2P''\<rparr> (U8 \<lparr>ncols = 5, rows = [[1, 2, 3, 4, 0xE4]]\<rparr>) = Inr (U16 \<lparr>ncols = 4, rows = [[4, 9, 14, 19]]\<rparr>)"
proof -
  have h1: "wf_array2 (\<lparr>ncols = 5, rows = [[1, 2, 3, 4, 0xE4]]\<rparr> :: u8 array2)" by code_simp
  have h2: "stored_bpp 
     \<lparr>fmt_size = Some (4, 1), fmt_stride = Some 5, fmt_bpp = Some 10,
       fmt_format = Some ''SRGGB10_CSI2P''\<rparr> = 10" by code_simp
  have h3: "5 dvd ncols (fmt_crop 
     \<lparr>fmt_size = Some (4, 1), fmt_stride = Some 5, fmt_bpp = Some 10,
       fmt_format = Some ''SRGGB10_CSI2P''\<rparr> (\<lparr>ncols = 5, rows = [[1, 2, 3, 4, 0xE4]]\<rparr> :: u8 array2))" by code_simp
  have r: "(Inr (U16 \<lparr>ncols = 4 * (ncols (fmt_crop 
     \<lparr>fmt_size = Some (4, 1), fmt_stride = Some 5, fmt_bpp = Some 10,
       fmt_format = Some ''SRGGB10_CSI2P''\<rparr> (\<lparr>ncols = 5, rows = [[1, 2, 3, 4, 0xE4]]\<rparr> :: u8 array2)) div 5),
                      rows = map groups10 (rows (fmt_crop 
     \<lparr>fmt_size = Some (4, 1), fmt_stride = Some 5, fmt_bpp = Some 10,
       fmt_format = Some ''SRGGB10_CSI2P''\<rparr> \<lparr>ncols = 5, rows = [[1, 2, 3, 4, 0xE4]]\<rparr>))\<rparr>) :: error + ndarray)
           = Inr (U16 \<lparr>ncols = 4, rows = [[4, 9, 14, 19]]\<rparr>)" by code_simp
  show ?thesis using h1 h2 h3 unpack_pixels_10bit_groups [OF h1 h2 h3] r by simp
qed

text \<open>Claim C3 as stated fails. With the low bits read at bit \<open>(i + 1) * 2\<close> of the fifth
  byte itself, the group \<open>1, 2, 3, 4, 0xE4\<close> would give \<open>5, 10, 15, 16\<close>; the code gives
  \<open>4, 9, 14, 19\<close>.\<close>

theorem unpack_pixels_10bit_counterexample:
  "unpack_pixels 
     \<lparr>fmt_size = Some (4, 1), fmt_stride = Some 5, fmt_bpp = Some 10,
       fmt_format = Some ''SRGGB10_CSI2P''\<rparr> (U8 \<lparr>ncols = 5, rows = [[1, 2, 3, 4, 0xE4]]\<rparr>) = Inr (U16 \<lparr>ncols = 4, rows = [[4, 9, 14, 19]]\<rparr>)
   \<and> spec_groups10 [1, 2, 3, 4, 0xE4] = [5, 10, 15, 16]"
  by code_simp

text \<open>Claim C4. For a \<open>uint8\<close> buffer whose cropped rows are whole groups of three
  bytes, the 12-bit branch turns each group \<open>(byte0, byte1, byte2)\<close> into exactly two
  samples, \<open>(byte0 << 4) | (byte2 & 0x0F)\<close> and \<open>(byte1 << 4) | ((byte2 >> 4) & 0x0F)\<close>.
  The code adds where the claim has \<open>|\<close>; the two agree, the shifted byte having its
  four low bits clear.\<close>

theorem unpack_pixels_12bit_groups:
  assumes "wf_array2 a" and "stored_bpp f = 12" and "3 dvd ncols (fmt_crop f a)"
  shows "unpack_pixels f (U8 a)
         = Inr (U16 \<lparr>ncols = 2 * (ncols (fmt_crop f a) div 3),
                      rows = map groups12 (rows (fmt_crop f a))\<rparr>)"
  using assms by (simp add: unpack_pixels_def Let_def unpack12_groups wf_fmt_crop)

theorem unpack_pixels_12bit_groups_witness:
  "wf_array2 (\<lparr>ncols = 3, rows = [[0xAB, 0xCD, 0x12]]\<rparr> :: u8 array2) \<and> stored_bpp 
     \<lparr>fmt_size = Some (2, 1), fmt_stride = Some 3, fmt_bpp = Some 12,
       fmt_format = Some ''SRGGB12_CSI2P''\<rparr> = 12 \<and> 3 dvd ncols (fmt_crop 
     \<lparr>fmt_size = Some (2, 1), fmt_stride = Some 3, fmt_bpp = Some 12,
       fmt_format = Some ''SRGGB12_CSI2P''\<rparr> (\<lparr>ncols = 3, rows = [[0xAB, 0xCD, 0x12]]\<rparr> :: u8 array2))
   \<and> unpack_pixels 
     \<lparr>fmt_size = Some (2, 1), fmt_stride = Some 3, fmt_bpp = Some 12,
       fmt_format = Some ''SRGGB12_CSI2P''\<rparr> (U8 \<lparr>ncols = 3, rows = [[0xAB, 0xCD, 0x12]]\<rparr>) = Inr (U16 \<lparr>ncols = 2, rows = [[0xAB2, 0xCD1]]\<rparr>)"
proof -
  have h1: "wf_array2 (\<lparr>ncols = 3, rows = [[0xAB, 0xCD, 0x12]]\<rparr> :: u8 array2)" by code_simp
  have h2: "stored_bpp 
     \<lparr>fmt_size = Some (2, 1), fmt_stride = Some 3, fmt_bpp = Some 12,
       fmt_format = Some ''SRGGB12_CSI2P''\<rparr> = 12" by code_simp
  have h3: "3 dvd ncols (fmt_crop 
     \<lparr>fmt_size = Some (2, 1), fmt_stride = Some 3, fmt_bpp = Some 12,
       fmt_format = Some ''SRGGB12_CSI2P''\<rparr> (\<lparr>ncols = 3, rows = [[0xAB, 0xCD, 0x12]]\<rparr> :: u8 array2))" by code_simp
  have r: "(Inr (U16 \<lparr>ncols = 2 * (ncols (fmt_crop 
     \<lparr>fmt_size = Some (2, 1), fmt_stride = Some 3, fmt_bpp = Some 12,
       fmt_format = Some ''SRGGB12_CSI2P''\<rparr> (\<lparr>ncols = 3, rows = [[0xAB, 0xCD, 0x12]]\<rparr> :: u8 array2)) div 3),
                      rows = map groups12 (rows (fmt_crop 
     \<lparr>fmt_size = Some (2, 1), fmt_stride = Some 3, fmt_bpp = Some 12,
       fmt_format = Some ''SRGGB12_CSI2P''\<rparr> \<lparr>ncols = 3, rows = [[0xAB, 0xCD, 0x12]]\<rparr>))\<rparr>) :: error + ndarray)
           = Inr (U16 \<lparr>ncols = 2, rows = [[0xAB2, 0xCD1]]\<rparr>)" by code_simp
  show ?thesis using h1 h2 h3 unpack_pixels_12bit_groups [OF h1 h2 h3] r by simp
qed

section \<open>Properties of \<open>__process__\<close>\<close>

text \<open>Claim C6. A \<open>float32\<close> frame with \<open>compress\<close> set makes \<open>__process__\<close> raise with no
  step done: the external coder is not called and no buffer is allocated. When the three
  dimension tags can be read, the exception is the one saying that compression is not
  supported for floating-point data; when one cannot, reading it raises first.\<close>

theorem process_float_compress_fails:
  assumes "dtype_of rawFrame = float32"
  shows "\<exists>e. process E rawFrame tags True predictor = ([], Inl e)
           \<and> ((\<exists>w l b. raw0 tags ImageWidth = Inr w \<and> raw0 tags ImageLength = Inr l
                       \<and> raw0 tags BitsPerSample = Inr b)
                \<longrightarrow> e = Exception ''Compression is not supported for floating-point data'')"
  using assms by (auto simp: process_def Let_def split: sum.splits)

theorem process_float_compress_fails_witness:
  "dtype_of (F32 \<lparr>ncols = 1, rows = [[0]]\<rparr>) = float32
   \<and> process stub_env (F32 \<lparr>ncols = 1, rows = [[0]]\<rparr>) [(ImageWidth, [4]), (ImageLength, [2]), (BitsPerSample, [16])] True 6
       = ([], Inl (Exception ''Compression is not supported for floating-point data''))"
proof -
  have h: "dtype_of (F32 \<lparr>ncols = 1, rows = [[0]]\<rparr>) = float32" by simp
  have t: "\<exists>w l b. raw0 [(ImageWidth, [4]), (ImageLength, [2]), (BitsPerSample, [16])] ImageWidth = Inr w \<and> raw0 [(ImageWidth, [4]), (ImageLength, [2]), (BitsPerSample, [16])] ImageLength = Inr l
                   \<and> raw0 [(ImageWidth, [4]), (ImageLength, [2]), (BitsPerSample, [16])] BitsPerSample = Inr b"
    by (simp add: raw0_def)
  from process_float_compress_fails [OF h, of stub_env "[(ImageWidth, [4]), (ImageLength, [2]), (BitsPerSample, [16])]" 6] t h
  show ?thesis by auto
qed




section \<open>Properties of the checks and of the filter step\<close>

text \<open>Claim C8. A tag table without the image width, the image length or the bits per
  sample makes every \<open>options\<close> method raise (each calls \<open>__tags_condition__\<close> first), so
  the table is never stored; \<open>convert\<close> on an object whose options were never stored
  raises at once, with no step done and so no buffer allocated.\<close>

theorem options_missing_required_tag:
  assumes "map_of tags ImageWidth = None \<or> map_of tags ImageLength = None
           \<or> map_of tags BitsPerSample = None"
  shows "(\<exists>msg. options c tags path compress predictor = Inl (Exception msg))
       \<and> (c_model_tags c = tags \<longrightarrow>
            (\<exists>msg. cam_options c path compress = Inl (Exception msg))
          \<and> (\<exists>msg. picam_options c compress = Inl (Exception msg)))
       \<and> (c_tags c = None \<longrightarrow>
            convert E c img filename = ([], Inl (Exception ''Options have not been set!'')))"
  using assms
  by (auto simp: options_def cam_options_def picam_options_def tags_condition_def convert_def)

theorem options_missing_required_tag_witness:
  "map_of [(ImageWidth, [4 :: int]), (ImageLength, [2])] BitsPerSample = None
   \<and> options (init RAW2DNG [] \<lparr>fmt_size = None, fmt_stride = None, fmt_bpp = None, fmt_format = None\<rparr>) [(ImageWidth, [4]), (ImageLength, [2])] ''out'' False 6
       = Inl (Exception ''Bit per pixel is not defined.'')
   \<and> convert stub_env (init RAW2DNG [] \<lparr>fmt_size = None, fmt_stride = None, fmt_bpp = None, fmt_format = None\<rparr>) (U16 \<lparr>ncols = 1, rows = [[0]]\<rparr>) []
       = ([], Inl (Exception ''Options have not been set!''))"
proof -
  have h: "map_of [(ImageWidth, [4 :: int]), (ImageLength, [2])] ImageWidth = None
           \<or> map_of [(ImageWidth, [4 :: int]), (ImageLength, [2])] ImageLength = None
           \<or> map_of [(ImageWidth, [4 :: int]), (ImageLength, [2])] BitsPerSample = None"
    by simp
  have n: "c_tags (init RAW2DNG [] \<lparr>fmt_size = None, fmt_stride = None, fmt_bpp = None, fmt_format = None\<rparr>) = None" by (simp add: init_def)
  have o: "options (init RAW2DNG [] \<lparr>fmt_size = None, fmt_stride = None, fmt_bpp = None, fmt_format = None\<rparr>) [(ImageWidth, [4]), (ImageLength, [2])] ''out'' False 6
       = Inl (Exception ''Bit per pixel is not defined.'')"
    by (simp add: options_def tags_condition_def)
  from options_missing_required_tag [OF h, where c = "init RAW2DNG [] \<lparr>fmt_size = None, fmt_stride = None, fmt_bpp = None, fmt_format = None\<rparr>" and path = "''out''"
          and compress = False and predictor = 6 and E = stub_env and img = "(U16 \<lparr>ncols = 1, rows = [[0]]\<rparr>)" and filename = "[]"] n o
  show ?thesis by simp
qed

text \<open>Claim C9, as amended. With no hook the filter step returns the frame itself. A hook
  that returns something other than an array, an array of another shape, or an array whose
  element type is not \<open>uint16\<close> makes the step raise, and the step itself touches nothing:
  the frame is as the hook left it. The element type is compared with \<open>uint16\<close>, not
  with the input's.\<close>

theorem filter_frame_contract:
  "filter_frame x None = (x, Inr x)
   \<and> (f x = (x', Inr NotAnArray) \<longrightarrow>
        filter_frame x (Some f) = (x', Inl (TypeError ''return value is not a valid numpy array!'')))
   \<and> (f x = (x', Inr (Arr p)) \<and> shape_of p \<noteq> shape_of x' \<longrightarrow>
        filter_frame x (Some f) = (x', Inl (ValueError ''return array does not have the same shape!'')))
   \<and> (f x = (x', Inr (Arr p)) \<and> shape_of p = shape_of x' \<and> dtype_of p \<noteq> uint16 \<longrightarrow>
        filter_frame x (Some f) = (x', Inl (ValueError ''array data type is invalid!'')))"
  by (simp add: filter_frame_def)

theorem filter_frame_contract_witness:
  "filter_frame (U16 \<lparr>ncols = 1, rows = [[0]]\<rparr>) None = ((U16 \<lparr>ncols = 1, rows = [[0]]\<rparr>), Inr (U16 \<lparr>ncols = 1, rows = [[0]]\<rparr>))
   \<and> filter_frame (U16 \<lparr>ncols = 1, rows = [[0]]\<rparr>) (Some (\<lambda>a. (a, Inr (Arr (U16 \<lparr>ncols = 2, rows = [[0, 0]]\<rparr>)))))
       = ((U16 \<lparr>ncols = 1, rows = [[0]]\<rparr>), Inl (ValueError ''return array does not have the same shape!''))
   \<and> filter_frame (U16 \<lparr>ncols = 1, rows = [[0]]\<rparr>) (Some (\<lambda>a. (a, Inr (Arr (U8 \<lparr>ncols = 1, rows = [[0]]\<rparr>)))))
       = ((U16 \<lparr>ncols = 1, rows = [[0]]\<rparr>), Inl (ValueError ''array data type is invalid!''))"
  using filter_frame_contract [where x = "(U16 \<lparr>ncols = 1, rows = [[0]]\<rparr>)"
            and f = "\<lambda>a. (a, Inr (Arr (U16 \<lparr>ncols = 2, rows = [[0, 0]]\<rparr>)))"
            and x' = "(U16 \<lparr>ncols = 1, rows = [[0]]\<rparr>)" and p = "U16 \<lparr>ncols = 2, rows = [[0, 0]]\<rparr>"]
        filter_frame_contract [where x = "(U16 \<lparr>ncols = 1, rows = [[0]]\<rparr>)" and f = "\<lambda>a. (a, Inr (Arr (U8 \<lparr>ncols = 1, rows = [[0]]\<rparr>)))"
            and x' = "(U16 \<lparr>ncols = 1, rows = [[0]]\<rparr>)" and p = "(U8 \<lparr>ncols = 1, rows = [[0]]\<rparr>)"]
  by simp

text \<open>Claim C9 as stated fails: for a \<open>float32\<close> frame a hook returning a \<open>uint16\<close> array
  of the same shape, an element type different from the input's, is accepted; one
  returning the frame itself is refused.\<close>

theorem filter_frame_counterexample:
  "dtype_of (U16 \<lparr>ncols = 1, rows = [[0]]\<rparr>) \<noteq> dtype_of (F32 \<lparr>ncols = 1, rows = [[0]]\<rparr>)
   \<and> filter_frame (F32 \<lparr>ncols = 1, rows = [[0]]\<rparr>) (Some (\<lambda>a. (a, Inr (Arr (U16 \<lparr>ncols = 1, rows = [[0]]\<rparr>))))) = ((F32 \<lparr>ncols = 1, rows = [[0]]\<rparr>), Inr (U16 \<lparr>ncols = 1, rows = [[0]]\<rparr>))
   \<and> filter_frame (F32 \<lparr>ncols = 1, rows = [[0]]\<rparr>) (Some (\<lambda>a. (a, Inr (Arr a))))
       = ((F32 \<lparr>ncols = 1, rows = [[0]]\<rparr>), Inl (ValueError ''array data type is invalid!''))"
  by (simp add: filter_frame_def)

text \<open>Claim C10, as amended. For the classes that keep \<open>DNGBASE.__data_condition__\<close>, an
  array that is neither \<open>uint16\<close> nor \<open>float32\<close> makes \<open>convert\<close> raise with no step done.
  \<open>RPICAM2DNG\<close> and \<open>PICAM2DNG\<close> override the check: an array that is not \<open>uint8\<close> gets a
  warning, the check returns, and the unpacker passes the array on unchanged.\<close>

theorem data_condition_by_class:
  "(\<not> is_rpicam c \<and> c_tags c = Some tags \<and> dtype_of img \<noteq> uint16 \<and> dtype_of img \<noteq> float32 \<longrightarrow>
      convert E c img filename
      = ([], Inl (Exception ''RAW Data is not in correct format. Must be uint16_t or float32_t Numpy Array. '')))
   \<and> (is_rpicam c \<and> dtype_of img \<noteq> uint8 \<longrightarrow>
      check_data c img = ([Warning ''RAW Data is not in correct format. Already unpacked? ''], Inr ())
      \<and> unpack c img = Inr img)"
  by (cases img) (auto simp: convert_def check_data_def data_condition_def rpicam_data_condition_def
      unpack_def unpack_pixels_def)

theorem data_condition_by_class_witness:
  "convert stub_env (init RAW2DNG [] \<lparr>fmt_size = None, fmt_stride = None, fmt_bpp = None, fmt_format = None\<rparr> \<lparr>c_tags := Some [(ImageWidth, [4]), (ImageLength, [2]), (BitsPerSample, [16])]\<rparr>) (U8 \<lparr>ncols = 1, rows = [[0]]\<rparr>) []
     = ([], Inl (Exception ''RAW Data is not in correct format. Must be uint16_t or float32_t Numpy Array. ''))
   \<and> check_data (init RPICAM2DNG [(ImageWidth, [4]), (ImageLength, [2]), (BitsPerSample, [16])] \<lparr>fmt_size = None, fmt_stride = None, fmt_bpp = None, fmt_format = None\<rparr>) (U16 \<lparr>ncols = 1, rows = [[0]]\<rparr>)
     = ([Warning ''RAW Data is not in correct format. Already unpacked? ''], Inr ())
   \<and> unpack (init RPICAM2DNG [(ImageWidth, [4]), (ImageLength, [2]), (BitsPerSample, [16])] \<lparr>fmt_size = None, fmt_stride = None, fmt_bpp = None, fmt_format = None\<rparr>) (U16 \<lparr>ncols = 1, rows = [[0]]\<rparr>) = Inr (U16 \<lparr>ncols = 1, rows = [[0]]\<rparr>)"
  using data_condition_by_class [where c = "init RAW2DNG [] \<lparr>fmt_size = None, fmt_stride = None, fmt_bpp = None, fmt_format = None\<rparr> \<lparr>c_tags := Some [(ImageWidth, [4]), (ImageLength, [2]), (BitsPerSample, [16])]\<rparr>"
            and tags = "[(ImageWidth, [4]), (ImageLength, [2]), (BitsPerSample, [16])]" and img = "(U8 \<lparr>ncols = 1, rows = [[0]]\<rparr>)" and E = stub_env and filename = "[]"]
        data_condition_by_class [where c = "init RPICAM2DNG [(ImageWidth, [4]), (ImageLength, [2]), (BitsPerSample, [16])] \<lparr>fmt_size = None, fmt_stride = None, fmt_bpp = None, fmt_format = None\<rparr>" and img = "(U16 \<lparr>ncols = 1, rows = [[0]]\<rparr>)"]
  by (simp add: is_rpicam_def init_def)

text \<open>Claim C10 as stated fails for \<open>RPICAM2DNG\<close>: an \<open>int32\<close> array is warned about and the
  conversion goes on. After \<open>CAM2DNG.options\<close> it stops later, and not for the element
  type, on the attribute \<open>predictor\<close> that \<open>options\<close> did not set; with that attribute set
  it allocates and returns a buffer.\<close>

theorem data_condition_counterexample:
  "cam_options (init RPICAM2DNG [(ImageWidth, [4]), (ImageLength, [2]), (BitsPerSample, [16])] \<lparr>fmt_size = None, fmt_stride = None, fmt_bpp = None, fmt_format = None\<rparr>) [] False = Inr \<lparr>c_kind = RPICAM2DNG, c_compress = Some False, c_path = Some [], c_tags = Some [(ImageWidth, [4]), (ImageLength, [2]), (BitsPerSample, [16])],
        c_filter = None, c_predictor = None, c_model_tags = [(ImageWidth, [4]), (ImageLength, [2]), (BitsPerSample, [16])], c_model_fmt = \<lparr>fmt_size = None, fmt_stride = None, fmt_bpp = None, fmt_format = None\<rparr>\<rparr>
   \<and> convert stub_env \<lparr>c_kind = RPICAM2DNG, c_compress = Some False, c_path = Some [], c_tags = Some [(ImageWidth, [4]), (ImageLength, [2]), (BitsPerSample, [16])],
        c_filter = None, c_predictor = None, c_model_tags = [(ImageWidth, [4]), (ImageLength, [2]), (BitsPerSample, [16])], c_model_fmt = \<lparr>fmt_size = None, fmt_stride = None, fmt_bpp = None, fmt_format = None\<rparr>\<rparr> (Other ''int32'' \<lparr>ncols = 1, rows = [[[0, 0, 0, 0]]]\<rparr>) []
      = ([Warning ''RAW Data is not in correct format. Already unpacked? ''],
         Inl (AttributeError ''object has no attribute predictor''))
   \<and> convert stub_env (\<lparr>c_kind = RPICAM2DNG, c_compress = Some False, c_path = Some [], c_tags = Some [(ImageWidth, [4]), (ImageLength, [2]), (BitsPerSample, [16])],
        c_filter = None, c_predictor = None, c_model_tags = [(ImageWidth, [4]), (ImageLength, [2]), (BitsPerSample, [16])], c_model_fmt = \<lparr>fmt_size = None, fmt_stride = None, fmt_bpp = None, fmt_format = None\<rparr>\<rparr> \<lparr>c_predictor := Some 6\<rparr>) (Other ''int32'' \<lparr>ncols = 1, rows = [[[0, 0, 0, 0]]]\<rparr>) []
      = ([Warning ''RAW Data is not in correct format. Already unpacked? '', Alloc 0],
         Inr (Buffer []))"
  by (simp add: cam_options_def init_def tags_condition_def convert_def check_data_def is_rpicam_def
      rpicam_data_condition_def unpack_def unpack_pixels_def filter_frame_def process_def raw0_def
      make_tile_def assemble_def stub_env_def deliver_def Let_def)

section \<open>What the unpacker inverts\<close>




end
